theory Spec2Isabelle
  imports Main "HOL-Library.AList"
begin

section \<open>JavaScript values and objects\<close>

text \<open>
  The consent manager of \<^verbatim>\<open>lib/plugins/consent-manager.js\<close> works on plain
  JavaScript objects. A property value is one of the primitive values below; numbers are
  the integral millisecond timestamps the plugin stores, \<open>JNaN\<close> is the number NaN.
  An object is an association list in insertion order, which is the order of
  \<^verbatim>\<open>for ... in\<close> and of \<^verbatim>\<open>Object.keys\<close> for keys that are not array indices.
\<close>

datatype jsval = JUndefined | JNull | JBool bool | JNum int | JNaN | JStr string

type_synonym obj = "(string \<times> jsval) list"

text \<open>Truthiness, as tested by \<^verbatim>\<open>if (v)\<close>, \<^verbatim>\<open>!v\<close>, \<^verbatim>\<open>v && w\<close> and \<^verbatim>\<open>v || w\<close>.\<close>

fun truthy :: "jsval \<Rightarrow> bool" where
  "truthy JUndefined = False"
| "truthy JNull = False"
| "truthy (JBool b) = b"
| "truthy (JNum n) = (n \<noteq> 0)"
| "truthy JNaN = False"
| "truthy (JStr s) = (s \<noteq> [])"

definition js_or :: "jsval \<Rightarrow> jsval \<Rightarrow> jsval" where
  "js_or a b = (if truthy a then a else b)"

text \<open>\<^verbatim>\<open>o.k\<close>: the value of the first entry for \<open>k\<close>, undefined when there is none.\<close>

definition property :: "obj \<Rightarrow> string \<Rightarrow> jsval" where
  "property ob k = (case map_of ob k of None \<Rightarrow> JUndefined | Some v \<Rightarrow> v)"

text \<open>\<^verbatim>\<open>k in o\<close> for an own property.\<close>

definition has :: "obj \<Rightarrow> string \<Rightarrow> bool" where
  "has ob k = (k \<in> set (map fst ob))"

subsection \<open>The lodash functions the plugin calls\<close>

text \<open>
  \<^verbatim>\<open>_.isEmpty\<close> on a primitive: only a string of positive length is not empty
  (numbers, booleans, null and undefined have no own enumerable keys).
\<close>

fun isEmpty_val :: "jsval \<Rightarrow> bool" where
  "isEmpty_val (JStr s) = (s = [])"
| "isEmpty_val _ = True"

fun isString :: "jsval \<Rightarrow> bool" where
  "isString (JStr s) = True"
| "isString _ = False"

fun isNumber :: "jsval \<Rightarrow> bool" where
  "isNumber (JNum n) = True"
| "isNumber JNaN = True"
| "isNumber _ = False"

text \<open>\<^verbatim>\<open>_.isObject\<close> is false on every primitive.\<close>

definition isObject :: "jsval \<Rightarrow> bool" where
  "isObject v = False"

text \<open>\<^verbatim>\<open>_.omit(o, ks)\<close>: a copy of \<open>o\<close> without the keys \<open>ks\<close>.\<close>

definition omit :: "(string \<times> 'v) list \<Rightarrow> string list \<Rightarrow> (string \<times> 'v) list" where
  "omit ob ks = filter (\<lambda>(k, v). k \<notin> set ks) ob"

text \<open>
  \<^verbatim>\<open>_.assign({}, a, b)\<close>: the properties of \<open>a\<close>, then those of \<open>b\<close> written over
  them one after the other; a key of \<open>a\<close> keeps its place, a new key goes last.
\<close>

definition assign :: "(string \<times> 'v) list \<Rightarrow> (string \<times> 'v) list \<Rightarrow> (string \<times> 'v) list" where
  "assign a b = fold (\<lambda>(k, v). AList.update k v) b a"

section \<open>The data model\<close>

text \<open>
  A consent is an object. A context is an object whose property \<^verbatim>\<open>consents\<close>, when
  it is there, is an object of consents keyed by purpose; the record keeps that property
  apart from the others (\<open>None\<close>: the context has no property \<^verbatim>\<open>consents\<close>). The same
  type is the argument of \<^verbatim>\<open>updateContext\<close>. The preferences store maps context ids
  to contexts.
\<close>

record cm_context =
  ctx_info :: obj
  ctx_consents :: "(string \<times> obj) list option"

type_synonym preferences = "(string \<times> cm_context) list"

text \<open>A host function passed or configured as a callback; \<open>Noop\<close> is \<^verbatim>\<open>_.noop\<close>.\<close>

datatype callback = Noop | Handler nat

text \<open>
  \<^verbatim>\<open>this.consentManager\<close>, \<^verbatim>\<open>this.defaultContext\<close> and \<^verbatim>\<open>this.client.track.uuid\<close>
  after \<^verbatim>\<open>configure\<close>, with the collaborators that are not part of the sources as
  fields: \<open>camelCase\<close> of \<^verbatim>\<open>utils/misc\<close>, \<open>storage_accessible\<close> for
  \<^verbatim>\<open>isLocalStorageAccessible()\<close>, \<open>dayjs_format s\<close> for
  \<^verbatim>\<open>dayjs(s, dateFormat)\<close> and \<open>dayjs s\<close> for \<^verbatim>\<open>dayjs(s)\<close> on a string (\<open>None\<close>
  when the date is not valid, else its \<^verbatim>\<open>valueOf()\<close>), and \<open>format_date s\<close> for
  \<^verbatim>\<open>dayjs(s).format(dateFormat)\<close>.
\<close>

record config =
  issuer :: jsval
  uuid :: jsval
  consentTable :: string
  contextTable :: string
  successConsentCallback :: callback
  failureConsentCallback :: callback
  expiredConsentsCallback :: callback
  defaultContext :: cm_context
  storage_accessible :: bool
  camelCase :: "string \<Rightarrow> string"
  dayjs_format :: "string \<Rightarrow> int option"
  dayjs :: "string \<Rightarrow> int option"
  format_date :: "string \<Rightarrow> string"

text \<open>The consents of a context in iteration order; iterating over undefined visits nothing.\<close>

definition context_consents :: "cm_context \<Rightarrow> (string \<times> obj) list" where
  "context_consents ctx = (case ctx_consents ctx of None \<Rightarrow> [] | Some cs \<Rightarrow> cs)"

text \<open>
  The pairs (purpose, consent) that the nested loops over every context and every consent
  of it visit, in the order they visit them.
\<close>

definition all_consents :: "preferences \<Rightarrow> (string \<times> obj) list" where
  "all_consents prefs = concat (map (\<lambda>(cid, ctx). context_consents ctx) prefs)"

text \<open>The test \<^verbatim>\<open>if (currentConsent._updated)\<close>.\<close>

definition updated_flag :: "obj \<Rightarrow> bool" where
  "updated_flag c = truthy (property c ''_updated'')"

section \<open>The sync engine\<close>

definition getNormalizedConsent :: "config \<Rightarrow> string \<Rightarrow> obj \<Rightarrow> obj" where
  "getNormalizedConsent cfg consentKey consent =
     [(''description'', property consent ''description''),
      (''datatype'', property consent ''datatype''),
      (''status'', property consent ''status''),
      (''expriry_date'', js_or (property consent ''expiry_date'') JNull),
      (''issuer'', issuer cfg),
      (''identifier'', uuid cfg),
      (''purpose'', JStr consentKey),
      (''context_id'', property consent ''context_id'')]"

text \<open>
  \<^verbatim>\<open>_normalizeConsents\<close>: two objects keyed by purpose, filled over all contexts (a
  purpose met again overwrites the entry), and the choice between them.
\<close>

definition normalizeConsents :: "config \<Rightarrow> preferences \<Rightarrow> (string \<times> obj) list" where
  "normalizeConsents cfg prefs =
     (let updatedConsents =
            fold (\<lambda>(k, c). AList.update k (getNormalizedConsent cfg k c))
              (filter (\<lambda>(k, c). updated_flag c) (all_consents prefs)) [];
          notUdpatedConsents =
            fold (\<lambda>(k, c). AList.update k (getNormalizedConsent cfg k c))
              (filter (\<lambda>(k, c). \<not> updated_flag c) (all_consents prefs)) []
      in if updatedConsents = [] then notUdpatedConsents else updatedConsents)"

text \<open>
  \<^verbatim>\<open>_stringifyPreferences\<close> before \<^verbatim>\<open>JSON.stringify\<close>: on a deep copy, an expiry
  date that is not empty for lodash is formatted, the identifier is set and the flag
  \<^verbatim>\<open>_updated\<close> is left out.
\<close>

definition stringifyConsent :: "config \<Rightarrow> obj \<Rightarrow> obj" where
  "stringifyConsent cfg c =
     (let c1 = (case property c ''expiry_date'' of
                  JStr s \<Rightarrow> if s \<noteq> [] then AList.update ''expiry_date'' (JStr (format_date cfg s)) c
                            else c
                | _ \<Rightarrow> c);
          c2 = AList.update ''identifier'' (uuid cfg) c1
      in omit c2 [''_updated''])"

definition stringifyPreferences :: "config \<Rightarrow> preferences \<Rightarrow> preferences" where
  "stringifyPreferences cfg prefs =
     map (\<lambda>(cid, ctx).
            (cid, ctx\<lparr>ctx_consents :=
                        map_option (map (\<lambda>(p, c). (p, stringifyConsent cfg c))) (ctx_consents ctx)\<rparr>))
         prefs"

text \<open>\<^verbatim>\<open>_savePreferences\<close>: what is written under the storage key, \<open>None\<close> when nothing is.\<close>

definition savePreferences :: "config \<Rightarrow> preferences \<Rightarrow> preferences option" where
  "savePreferences cfg prefs =
     (if \<not> storage_accessible cfg \<or> prefs = [] then None
      else Some (stringifyPreferences cfg prefs))"

text \<open>
  What a call of \<^verbatim>\<open>saveConsents\<close> does before it returns: the write to the storage,
  the records handed to \<^verbatim>\<open>addConsentRecord\<close> with their table, one call each (the
  executor of a promise runs at once), the two callbacks it resolved, and whether
  \<^verbatim>\<open>updatedConsents\<close> was not empty, which the \<^verbatim>\<open>finally\<close> handler reads later.
\<close>

record sync_request =
  stored :: "preferences option"
  dispatched :: "(string \<times> obj) list"
  on_success :: callback
  on_error :: callback
  had_updates :: bool

definition saveConsents ::
  "config \<Rightarrow> callback option \<Rightarrow> callback option \<Rightarrow> preferences \<Rightarrow> sync_request" where
  "saveConsents cfg success error prefs =
     (let success' = (case success of Some f \<Rightarrow> f | None \<Rightarrow> successConsentCallback cfg);
          error' = (case error of Some f \<Rightarrow> f | None \<Rightarrow> failureConsentCallback cfg);
          st = savePreferences cfg prefs;
          updatedConsents =
            map (\<lambda>(k, c). getNormalizedConsent cfg k c)
              (filter (\<lambda>(k, c). updated_flag c) (all_consents prefs));
          notUpdatedConsents =
            map (\<lambda>(k, c). getNormalizedConsent cfg k c)
              (filter (\<lambda>(k, c). \<not> updated_flag c) (all_consents prefs));
          promises = (if updatedConsents \<noteq> [] then updatedConsents else notUpdatedConsents)
      in \<lparr>stored = st,
          dispatched = map (\<lambda>r. (consentTable cfg, r)) promises,
          on_success = success',
          on_error = error',
          had_updates = (updatedConsents \<noteq> [])\<rparr>)"

text \<open>\<^verbatim>\<open>_resetUpdatedStatus\<close>: every flag that is set is written to \<^verbatim>\<open>false\<close>.\<close>

definition resetConsent :: "obj \<Rightarrow> obj" where
  "resetConsent c = (if updated_flag c then AList.update ''_updated'' (JBool False) c else c)"

definition resetUpdatedStatus :: "preferences \<Rightarrow> preferences" where
  "resetUpdatedStatus prefs =
     map (\<lambda>(cid, ctx).
            (cid, ctx\<lparr>ctx_consents := map_option (map (\<lambda>(p, c). (p, resetConsent c))) (ctx_consents ctx)\<rparr>))
         prefs"

text \<open>
  The aggregate outcome of \<^verbatim>\<open>Promise.all\<close> over the dispatches, and the call of a
  callback it leads to.
\<close>

datatype outcome = AllAccepted | Rejected string

datatype notification =
    SuccessCalled callback "(string \<times> obj) list"
  | ErrorCalled callback obj

text \<open>
  The two handlers given to \<^verbatim>\<open>then\<close>, which run once \<^verbatim>\<open>Promise.all\<close> has settled, on
  the store as it is then: the call of \<^verbatim>\<open>success(this._normalizeConsents())\<close> or of
  \<^verbatim>\<open>error({ success: false, message: e.message })\<close>. They do not write to the store.
\<close>

definition notify :: "config \<Rightarrow> sync_request \<Rightarrow> outcome \<Rightarrow> preferences \<Rightarrow> notification" where
  "notify cfg req out prefs =
     (case out of
        AllAccepted \<Rightarrow> SuccessCalled (on_success req) (normalizeConsents cfg prefs)
      | Rejected msg \<Rightarrow>
          ErrorCalled (on_error req) [(''success'', JBool False), (''message'', JStr msg)])"

text \<open>
  The settling of a sync when the callback leaves the store as it is: the call of the
  callback, then the \<^verbatim>\<open>finally\<close> handler, which resets the flags when the call had
  found an updated consent.
\<close>

definition settle ::
  "config \<Rightarrow> sync_request \<Rightarrow> outcome \<Rightarrow> preferences \<Rightarrow> notification \<times> preferences" where
  "settle cfg req out prefs =
     (let note = notify cfg req out prefs
      in (note, if had_updates req then resetUpdatedStatus prefs else prefs))"

text \<open>
  What the callbacks of the host do when they are called with a notification, on the
  store as it is: they may call operations of the plugin, which changes the store and
  starts further syncs.
\<close>

type_synonym host = "notification \<Rightarrow> preferences \<Rightarrow> preferences \<times> sync_request list"

text \<open>
  The settling of a sync in the order of the promise chain
  \<^verbatim>\<open>Promise.all(promises).then(..., ...).finally(...)\<close>: the handler of \<^verbatim>\<open>then\<close> calls
  the callback, the callback of the host runs on the store that still has its flags, and
  only then the \<^verbatim>\<open>finally\<close> handler resets the flags of the store the callback left.
  The result is the notification, the syncs the callback started and the store after
  \<^verbatim>\<open>finally\<close>.
\<close>

definition settle_with ::
  "config \<Rightarrow> host \<Rightarrow> sync_request \<Rightarrow> outcome \<Rightarrow> preferences \<Rightarrow>
     notification \<times> sync_request list \<times> preferences" where
  "settle_with cfg host req out prefs =
     (let note = notify cfg req out prefs;
          (prefs1, started) = host note prefs;
          prefs2 = (if had_updates req then resetUpdatedStatus prefs1 else prefs1)
      in (note, started, prefs2))"

section \<open>The consent record store and the context registry\<close>

text \<open>An exception thrown past an operation: reading a property of undefined.\<close>

datatype error = TypeError

definition GIVEN :: string where "GIVEN = ''given''"
definition REFUSED :: string where "REFUSED = ''refused''"
definition NOTGIVEN :: string where "NOTGIVEN = ''notgiven''"
definition EXPIRED :: string where "EXPIRED = ''expired''"

text \<open>\<^verbatim>\<open>String.prototype.toLowerCase\<close> on ASCII.\<close>

definition lower_char :: "char \<Rightarrow> char" where
  "lower_char c =
     (case map_of (zip ''ABCDEFGHIJKLMNOPQRSTUVWXYZ'' ''abcdefghijklmnopqrstuvwxyz'') c of
        None \<Rightarrow> c
      | Some l \<Rightarrow> l)"

definition upper_char :: "char \<Rightarrow> char" where
  "upper_char c =
     (case map_of (zip ''abcdefghijklmnopqrstuvwxyz'' ''ABCDEFGHIJKLMNOPQRSTUVWXYZ'') c of
        None \<Rightarrow> c
      | Some u \<Rightarrow> u)"

definition toLowerCase :: "string \<Rightarrow> string" where
  "toLowerCase s = map lower_char s"

fun isValidStatus :: "jsval \<Rightarrow> bool" where
  "isValidStatus (JStr s) =
     (s \<noteq> [] \<and>
      (let status = toLowerCase s
       in status = GIVEN \<or> status = REFUSED \<or> status = NOTGIVEN \<or> status = EXPIRED))"
| "isValidStatus _ = False"

text \<open>
  The key a value names when it indexes an object (\<^verbatim>\<open>preferences[contextId]\<close>): the
  string itself, and the string a primitive converts to.
\<close>

fun digits :: "nat \<Rightarrow> string" where
  "digits n =
     (if n < 10 then [''0123456789'' ! n] else digits (n div 10) @ [''0123456789'' ! (n mod 10)])"

fun property_key :: "jsval \<Rightarrow> string" where
  "property_key (JStr s) = s"
| "property_key (JNum n) = (if n < 0 then CHR ''-'' # digits (nat (- n)) else digits (nat n))"
| "property_key (JBool b) = (if b then ''true'' else ''false'')"
| "property_key JNaN = ''NaN''"
| "property_key JNull = ''null''"
| "property_key JUndefined = ''undefined''"

text \<open>
  The expiry date of an input that passes
  \<^verbatim>\<open>!_.isEmpty(d) && (_.isString(d) || _.isNumber(d) || _.isObject(d))\<close> and that
  \<^verbatim>\<open>dayjs(d, dateFormat)\<close> finds valid; only a string of positive length passes.
\<close>

definition parsedDate :: "config \<Rightarrow> jsval \<Rightarrow> int option" where
  "parsedDate cfg d =
     (if \<not> isEmpty_val d \<and> (isString d \<or> isNumber d \<or> isObject d)
      then (case d of JStr s \<Rightarrow> dayjs_format cfg s | _ \<Rightarrow> None)
      else None)"

text \<open>One round of the loop of \<^verbatim>\<open>addConsents\<close>, for the entry \<open>key\<close> of its argument.\<close>

definition addConsent :: "config \<Rightarrow> string \<Rightarrow> obj \<Rightarrow> preferences \<Rightarrow> error + preferences" where
  "addConsent cfg key c prefs =
     (let status = (if isValidStatus (property c ''status'') then property c ''status''
                    else JStr NOTGIVEN);
          supplied = property c ''context_id'';
          expiryDate0 = js_or (property c ''expiry_date'') (JStr []);
          contextId = (if \<not> truthy supplied then property (ctx_info (defaultContext cfg)) ''context_id''
                       else supplied);
          prefs1 = (if \<not> truthy supplied \<and> map_of prefs (property_key contextId) = None
                    then AList.update (property_key contextId) (defaultContext cfg) prefs
                    else prefs);
          expiryDate = (case parsedDate cfg expiryDate0 of Some t \<Rightarrow> JNum t | None \<Rightarrow> JStr [])
      in case map_of prefs1 (property_key contextId) of
           None \<Rightarrow> Inl TypeError
         | Some currentContext \<Rightarrow>
             (case ctx_consents currentContext of
                None \<Rightarrow> Inl TypeError
              | Some cs \<Rightarrow>
                  (let current = (case map_of cs key of None \<Rightarrow> [] | Some cur \<Rightarrow> cur);
                       augmentedConsent =
                         (if current \<noteq> [] then assign current c
                          else assign c [(''key'', JStr (camelCase cfg key)), (''status'', status),
                                         (''identifier'', uuid cfg), (''context_id'', contextId)]);
                       augmentedConsent1 = AList.update ''issuer'' (issuer cfg) augmentedConsent;
                       augmentedConsent2 = AList.update ''expiry_date'' expiryDate augmentedConsent1
                   in Inr (AList.update (property_key contextId)
                             (currentContext\<lparr>ctx_consents := Some (AList.update key augmentedConsent2 cs)\<rparr>)
                             prefs1))))"

text \<open>
  \<^verbatim>\<open>addConsents\<close>: the store after the call and the exception it threw, if any. A
  round that throws has not written to the store; the rounds before it have.
\<close>

fun addConsents_loop ::
  "config \<Rightarrow> (string \<times> obj) list \<Rightarrow> preferences \<Rightarrow> preferences \<times> error option" where
  "addConsents_loop cfg [] prefs = (prefs, None)"
| "addConsents_loop cfg ((key, c) # rest) prefs =
     (case addConsent cfg key c prefs of
        Inl e \<Rightarrow> (prefs, Some e)
      | Inr prefs' \<Rightarrow> addConsents_loop cfg rest prefs')"

definition addConsents ::
  "config \<Rightarrow> (string \<times> obj) list \<Rightarrow> preferences \<Rightarrow> preferences \<times> error option" where
  "addConsents cfg consents prefs =
     (if consents = [] then (prefs, None) else addConsents_loop cfg consents prefs)"

text \<open>\<^verbatim>\<open>_.isEmpty\<close>, \<^verbatim>\<open>_.omit(c, ['consents'])\<close> and \<^verbatim>\<open>_.assign({}, a, b)\<close> on contexts.\<close>

definition isEmpty_ctx :: "cm_context \<Rightarrow> bool" where
  "isEmpty_ctx c = (ctx_info c = [] \<and> ctx_consents c = None)"

definition omit_consents :: "cm_context \<Rightarrow> cm_context" where
  "omit_consents c = c\<lparr>ctx_consents := None\<rparr>"

definition assign_ctx :: "cm_context \<Rightarrow> cm_context \<Rightarrow> cm_context" where
  "assign_ctx a b =
     \<lparr>ctx_info = assign (ctx_info a) (ctx_info b),
      ctx_consents = (case ctx_consents b of Some cs \<Rightarrow> Some cs | None \<Rightarrow> ctx_consents a)\<rparr>"

text \<open>
  \<^verbatim>\<open>currentConsents[consentPurpose].k\<close>: reading a property of an entry that is not
  there throws.
\<close>

definition current_property :: "obj option \<Rightarrow> string \<Rightarrow> error + jsval" where
  "current_property current k =
     (case current of None \<Rightarrow> Inl TypeError | Some c \<Rightarrow> Inr (property c k))"

text \<open>
  \<^verbatim>\<open>updateConsent\<close>. The loop looks for a stored purpose equal to the first key of the
  argument under \<open>camelCase\<close>; its body reads and writes
  \<^verbatim>\<open>currentConsents[consentPurpose]\<close>, the entry under the key of the argument, falls
  back to its status and expiry date, and \<^verbatim>\<open>_.omit\<close> of a missing entry is the empty
  object.
\<close>

definition updateConsent ::
  "config \<Rightarrow> string \<Rightarrow> (string \<times> obj) list \<Rightarrow> preferences \<Rightarrow> error + preferences" where
  "updateConsent cfg contextId consent prefs =
     (case map_of prefs contextId of
        None \<Rightarrow> Inr prefs
      | Some ctx \<Rightarrow>
          (case consent of
             [] \<Rightarrow> Inr prefs
           | (consentPurpose, supplied) # others \<Rightarrow>
               if isEmpty_ctx ctx then Inr prefs
               else
                (let currentConsents = context_consents ctx
                 in if list_ex (\<lambda>(purpose, c). camelCase cfg purpose = camelCase cfg consentPurpose)
                         currentConsents
                    then
                      (let status0 = js_or (property supplied ''status'') (JStr []);
                           expiryDate0 = js_or (property supplied ''expiry_date'') (JStr []);
                           current = map_of currentConsents consentPurpose
                       in case (if isValidStatus status0 then Inr status0
                                else current_property current ''status'') of
                            Inl e \<Rightarrow> Inl e
                          | Inr status \<Rightarrow>
                              (case (case parsedDate cfg expiryDate0 of
                                       Some t \<Rightarrow> Inr (JNum t)
                                     | None \<Rightarrow> current_property current ''expiry_date'') of
                                 Inl e \<Rightarrow> Inl e
                               | Inr expiryDate \<Rightarrow>
                                   (let filteredConsent =
                                          omit (case current of None \<Rightarrow> [] | Some c \<Rightarrow> c)
                                            [''expiry_date'', ''status''];
                                        merged = assign
                                                   (assign filteredConsent
                                                      (omit supplied [''expiry_date'', ''status'']))
                                                   [(''identifier'', uuid cfg), (''status'', status),
                                                    (''expiry_date'', expiryDate)];
                                        updated = AList.update ''_updated'' (JBool True) merged
                                    in Inr (AList.update contextId
                                              (ctx\<lparr>ctx_consents :=
                                                     Some (AList.update consentPurpose updated
                                                             currentConsents)\<rparr>)
                                              prefs))))
                    else Inr prefs)))"

definition updateContext :: "string \<Rightarrow> cm_context \<Rightarrow> preferences \<Rightarrow> preferences" where
  "updateContext contextId values prefs =
     (case map_of prefs contextId of
        None \<Rightarrow> prefs
      | Some ctx \<Rightarrow>
          if isEmpty_ctx ctx \<or> isEmpty_ctx values then prefs
          else
           (let contextInfo = omit_consents ctx;
                contextInfo' = assign_ctx contextInfo values
            in AList.update contextId (assign_ctx ctx contextInfo') prefs))"

definition getConsentExpiryDate :: "preferences \<Rightarrow> string \<Rightarrow> string \<Rightarrow> error + jsval" where
  "getConsentExpiryDate prefs contextId consentPurpose =
     (if contextId = [] \<or> consentPurpose = [] then Inr JUndefined
      else
       (case map_of prefs contextId of
          None \<Rightarrow> Inl TypeError
        | Some ctx \<Rightarrow>
            (case ctx_consents ctx of
               None \<Rightarrow> Inl TypeError
             | Some consents \<Rightarrow>
                 (case map_of consents consentPurpose of
                    None \<Rightarrow> Inr JNull
                  | Some consent \<Rightarrow> Inr (js_or (property consent ''expiry_date'') JNull)))))"

text \<open>\<^verbatim>\<open>preferences[contextId].consents[purpose]\<close>, when all of it is there.\<close>

definition stored_consent :: "preferences \<Rightarrow> string \<Rightarrow> string \<Rightarrow> obj option" where
  "stored_consent prefs contextId purpose =
     (case map_of prefs contextId of
        None \<Rightarrow> None
      | Some ctx \<Rightarrow> (case ctx_consents ctx of None \<Rightarrow> None | Some cs \<Rightarrow> map_of cs purpose))"


section \<open>The storage adapter and the read-only projections\<close>

text \<open>
  \<^verbatim>\<open>getPreferences\<close>, on the value \<^verbatim>\<open>JSON.parse\<close> gives for the stored item
  (\<open>None\<close>: no item). A date string is parsed (NaN when it is not valid) and the
  identifier is set.
\<close>

definition loadConsent :: "config \<Rightarrow> obj \<Rightarrow> obj" where
  "loadConsent cfg c =
     (let c1 = (case property c ''expiry_date'' of
                  JStr s \<Rightarrow>
                    if s \<noteq> []
                    then AList.update ''expiry_date''
                           (case dayjs_format cfg s of Some t \<Rightarrow> JNum t | None \<Rightarrow> JNaN) c
                    else c
                | _ \<Rightarrow> c)
      in AList.update ''identifier'' (uuid cfg) c1)"

definition getPreferences :: "config \<Rightarrow> preferences option \<Rightarrow> preferences option" where
  "getPreferences cfg storage =
     (if \<not> storage_accessible cfg then None
      else
       (case storage of
          None \<Rightarrow> None
        | Some persistedPreferences \<Rightarrow>
            Some (map (\<lambda>(cid, ctx).
                         (cid, ctx\<lparr>ctx_consents :=
                                     map_option (map (\<lambda>(p, c). (p, loadConsent cfg c)))
                                       (ctx_consents ctx)\<rparr>))
                    persistedPreferences)))"

text \<open>
  \<^verbatim>\<open>dayjs(v)\<close> as an instant: a number is the milliseconds it counts when a
  \<^verbatim>\<open>Date\<close> can hold them, at most 8640000000000000 either side of 1970, and an invalid
  date beyond; a boolean converts to 1 or 0, \<^verbatim>\<open>undefined\<close> is the present time and
  \<^verbatim>\<open>null\<close> and NaN are not valid.
\<close>

definition instant :: "config \<Rightarrow> int \<Rightarrow> jsval \<Rightarrow> int option" where
  "instant cfg now v =
     (case v of
        JNum t \<Rightarrow> if - 8640000000000000 \<le> t \<and> t \<le> 8640000000000000 then Some t else None
      | JStr s \<Rightarrow> dayjs cfg s
      | JBool b \<Rightarrow> Some (if b then 1 else 0)
      | JUndefined \<Rightarrow> Some now
      | JNull \<Rightarrow> None
      | JNaN \<Rightarrow> None)"

text \<open>\<^verbatim>\<open>_isExpired\<close>, with \<open>now\<close> for \<^verbatim>\<open>new Date()\<close>.\<close>

definition isExpired :: "config \<Rightarrow> int \<Rightarrow> obj \<Rightarrow> bool" where
  "isExpired cfg now consent =
     (property consent ''status'' = JStr GIVEN \<and> truthy (property consent ''expiry_date'') \<and>
      (case instant cfg now (property consent ''expiry_date'') of
         None \<Rightarrow> False
       | Some t \<Rightarrow> t < now))"

definition getConsents :: "config \<Rightarrow> preferences option \<Rightarrow> preferences \<Rightarrow> obj list" where
  "getConsents cfg storage prefs =
     (let preferences = (if prefs \<noteq> [] then prefs
                         else (case getPreferences cfg storage of None \<Rightarrow> [] | Some p \<Rightarrow> p))
      in concat (map (\<lambda>(cid, ctx).
                        map (\<lambda>(key, c).
                               assign (ctx_info ctx)
                                 [(''status'', property c ''status''),
                                  (''datatype'', js_or (property c ''datatype'') (JStr [])),
                                  (''description'', js_or (property c ''description'') (JStr [])),
                                  (''expiry_date'', js_or (property c ''expiry_date'') (JStr [])),
                                  (''identifier'', uuid cfg),
                                  (''purpose'', JStr key)])
                          (context_consents ctx))
                   preferences))"

definition getExpiredConsents :: "config \<Rightarrow> int \<Rightarrow> preferences option \<Rightarrow> preferences \<Rightarrow> obj list" where
  "getExpiredConsents cfg now storage prefs =
     filter (\<lambda>consent. property consent ''status'' = JStr EXPIRED \<or> isExpired cfg now consent)
       (getConsents cfg storage prefs)"

section \<open>The expiry reconciler\<close>

definition expireConsent :: "config \<Rightarrow> int \<Rightarrow> obj \<Rightarrow> obj" where
  "expireConsent cfg now consent =
     (if isExpired cfg now consent
      then AList.update ''_updated'' (JBool True) (AList.update ''status'' (JStr EXPIRED) consent)
      else consent)"

text \<open>
  \<^verbatim>\<open>_updateExpiredConsents\<close>: the store after the scan, and the call of
  \<^verbatim>\<open>saveConsents(_.noop, _.noop)\<close> when the scan changed a consent.
\<close>

definition updateExpiredConsents ::
  "config \<Rightarrow> int \<Rightarrow> preferences \<Rightarrow> preferences \<times> sync_request option" where
  "updateExpiredConsents cfg now prefs =
     (let shouldSaveConsents = list_ex (\<lambda>(p, c). isExpired cfg now c) (all_consents prefs);
          prefs' = map (\<lambda>(cid, ctx).
                          (cid, ctx\<lparr>ctx_consents :=
                                      map_option (map (\<lambda>(p, c). (p, expireConsent cfg now c)))
                                        (ctx_consents ctx)\<rparr>))
                     prefs
      in (prefs', if shouldSaveConsents then Some (saveConsents cfg (Some Noop) (Some Noop) prefs')
                  else None))"

text \<open>
  \<^verbatim>\<open>configure\<close>, after the options are read: the store, the sync the reconciler
  started, and the calls of \<^verbatim>\<open>expiredConsentsCallback\<close> with their argument.
\<close>

record configured =
  cm_preferences :: preferences
  reconciler_sync :: "sync_request option"
  expired_calls :: "(callback \<times> obj list) list"

text \<open>\<^verbatim>\<open>this.getPreferences() || {}\<close>, the store \<^verbatim>\<open>configure\<close> starts from.\<close>

definition initial_preferences :: "config \<Rightarrow> preferences option \<Rightarrow> preferences" where
  "initial_preferences cfg storage =
     (case getPreferences cfg storage of None \<Rightarrow> [] | Some p \<Rightarrow> p)"

definition configure :: "config \<Rightarrow> int \<Rightarrow> preferences option \<Rightarrow> configured" where
  "configure cfg now storage =
     (let prefs0 = initial_preferences cfg storage;
          (prefs1, sync) = updateExpiredConsents cfg now prefs0
      in \<lparr>cm_preferences = prefs1,
          reconciler_sync = sync,
          expired_calls = [(expiredConsentsCallback cfg, getExpiredConsents cfg now storage prefs1)]\<rparr>)"

section \<open>Collaborators and fixtures\<close>

text \<open>
  Modelled from the spec: \<^verbatim>\<open>camelCase\<close> of \<^verbatim>\<open>utils/misc\<close> is not among the sources.
  The spec says only that purposes are matched insensitive to case and format; this
  model lower-cases the purpose, drops spaces, hyphens and underscores and upper-cases
  the letter that follows one. The operations above take the function from the
  configuration; only the fixtures below use this model.
\<close>

fun camel :: "bool \<Rightarrow> string \<Rightarrow> string" where
  "camel up [] = []"
| "camel up (c # cs) =
     (if c = CHR '' '' \<or> c = CHR ''-'' \<or> c = CHR ''_'' then camel True cs
      else (if up then upper_char c else c) # camel False cs)"

definition camelCase_misc :: "string \<Rightarrow> string" where
  "camelCase_misc s = camel False (toLowerCase s)"

text \<open>A date parser for the fixtures: it knows two dates.\<close>

definition fixture_dayjs :: "string \<Rightarrow> int option" where
  "fixture_dayjs s =
     (if s = ''2099-01-01'' then Some 4070908800000
      else if s = ''2001-01-01'' then Some 978307200000
      else None)"

definition fixture_context :: cm_context where
  "fixture_context =
     \<lparr>ctx_info = [(''brand'', JStr ''shop''), (''domain_name'', JStr ''shop''),
                  (''collection_type'', JStr ''shop''), (''collection_point_id'', JStr ''shop''),
                  (''context_id'', JStr ''ctx-default'')],
      ctx_consents = Some []\<rparr>"

definition fixture_config :: config where
  "fixture_config =
     \<lparr>issuer = JStr ''treasuredata'',
      uuid = JStr ''visitor'',
      consentTable = ''td_cm_consent'',
      contextTable = ''td_cm_context'',
      successConsentCallback = Handler 1,
      failureConsentCallback = Handler 2,
      expiredConsentsCallback = Handler 3,
      defaultContext = fixture_context,
      storage_accessible = True,
      camelCase = camelCase_misc,
      dayjs_format = fixture_dayjs,
      dayjs = fixture_dayjs,
      format_date = (\<lambda>s. s)\<rparr>"

text \<open>
  A store with one context and two consents, of which \<^verbatim>\<open>marketing\<close> is flagged as
  updated.
\<close>

definition fixture_store :: preferences where
  "fixture_store =
     [(''ctx-default'',
       fixture_context\<lparr>ctx_consents :=
         Some [(''analytics'', [(''status'', JStr ''given''), (''expiry_date'', JNum 4070908800000),
                               (''context_id'', JStr ''ctx-default'')]),
               (''marketing'', [(''status'', JStr ''refused''), (''expiry_date'', JStr []),
                               (''context_id'', JStr ''ctx-default''), (''_updated'', JBool True)])]\<rparr>)]"

text \<open>A store whose only consent is kept under the purpose \<^verbatim>\<open>Marketing\<close>.\<close>

definition fixture_store_capital :: preferences where
  "fixture_store_capital =
     [(''ctx-default'',
       fixture_context\<lparr>ctx_consents :=
         Some [(''Marketing'', [(''status'', JStr ''given''), (''expiry_date'', JNum 4070908800000),
                               (''context_id'', JStr ''ctx-default'')])]\<rparr>)]"

text \<open>
  A host whose error callback calls \<^verbatim>\<open>saveConsents()\<close> again and whose success callback
  does nothing.
\<close>

definition retrying_host :: "config \<Rightarrow> host" where
  "retrying_host cfg note prefs =
     (case note of
        ErrorCalled f e \<Rightarrow> (prefs, [saveConsents cfg None None prefs])
      | SuccessCalled f m \<Rightarrow> (prefs, []))"

text \<open>
  What the storage holds for a context with two given consents: \<^verbatim>\<open>newsletter\<close> expired
  in 2001, \<^verbatim>\<open>archive\<close> has the expiry date 0, the first millisecond of 1970.
\<close>

definition fixture_storage :: "preferences option" where
  "fixture_storage =
     Some [(''ctx-1'',
            \<lparr>ctx_info = [(''context_id'', JStr ''ctx-1''), (''brand'', JStr ''shop'')],
             ctx_consents =
               Some [(''newsletter'', [(''status'', JStr ''given''), (''expiry_date'', JNum 978307200000),
                                      (''context_id'', JStr ''ctx-1'')]),
                     (''archive'', [(''status'', JStr ''given''), (''expiry_date'', JNum 0),
                                   (''context_id'', JStr ''ctx-1'')])]\<rparr>)]"

section \<open>Objects and association lists\<close>

lemma property_update: "property (AList.update k v ob) k' = (if k' = k then v else property ob k')"
  by (simp add: property_def update_conv')

lemma filter_empty_list_ex: "(filter P xs = []) = (\<not> list_ex P xs)"
  by (induction xs) auto

lemma filter_not_all: "\<not> list_ex P xs \<Longrightarrow> filter (\<lambda>x. \<not> P x) xs = xs"
  by (induction xs) auto

lemma split_not: "(\<lambda>(k, c). \<not> P k c) = (\<lambda>x. \<not> (case x of (k, c) \<Rightarrow> P k c))"
  by auto

lemma dispatched_saveConsents:
  "dispatched (saveConsents cfg success error prefs) =
     map (\<lambda>(k, c). (consentTable cfg, getNormalizedConsent cfg k c))
       (if list_ex (\<lambda>(k, c). updated_flag c) (all_consents prefs)
        then filter (\<lambda>(k, c). updated_flag c) (all_consents prefs)
        else all_consents prefs)"
  by (auto simp add: saveConsents_def Let_def o_def filter_empty_list_ex split_not filter_not_all
        split_def)

lemma had_updates_saveConsents:
  "had_updates (saveConsents cfg success error prefs) =
     list_ex (\<lambda>(k, c). updated_flag c) (all_consents prefs)"
  by (simp add: saveConsents_def Let_def filter_empty_list_ex)

lemma all_consents_reset:
  "all_consents (resetUpdatedStatus prefs) = map (\<lambda>(k, c). (k, resetConsent c)) (all_consents prefs)"
  by (induction prefs)
     (auto simp: all_consents_def resetUpdatedStatus_def context_consents_def split: option.splits)

lemma resetConsent_clears: "\<not> updated_flag (resetConsent c)"
  by (simp add: resetConsent_def updated_flag_def property_update)

lemma in_update: "(k', r) \<in> set (AList.update k v al) \<Longrightarrow> (k', r) = (k, v) \<or> (k', r) \<in> set al"
  by (induction al) (auto split: if_splits)

lemma in_fold_update:
  "(k, r) \<in> set (fold (\<lambda>(k, c). AList.update k (f k c)) xs acc) \<Longrightarrow>
     (k, r) \<in> set acc \<or> (\<exists>c. (k, c) \<in> set xs \<and> r = f k c)"
proof (induction xs arbitrary: acc)
  case Nil then show ?case by simp
next
  case (Cons x xs)
  obtain k0 c0 where x: "x = (k0, c0)" by (cases x)
  from Cons.prems have "(k, r) \<in> set (fold (\<lambda>(k, c). AList.update k (f k c)) xs (AList.update k0 (f k0 c0) acc))"
    by (simp add: x)
  from Cons.IH[OF this] show ?case using in_update[of k r k0 "f k0 c0" acc]
    by (auto simp: x)
qed

lemma in_normalizeConsents:
  "(k, r) \<in> set (normalizeConsents cfg prefs) \<Longrightarrow>
     \<exists>c. (k, c) \<in> set (all_consents prefs) \<and> r = getNormalizedConsent cfg k c"
  unfolding normalizeConsents_def Let_def
  by (auto split: if_splits dest!: in_fold_update)

lemma normalized_keys:
  "has (getNormalizedConsent cfg k c) ''expriry_date'' \<and> \<not> has (getNormalizedConsent cfg k c) ''expiry_date''"
  by (simp add: getNormalizedConsent_def has_def)



section \<open>Lookups in the store\<close>

lemma map_of_map_value: "map_of (map (\<lambda>(k, v). (k, g v)) xs) k = map_option g (map_of xs k)"
  by (induction xs) auto

lemma stored_consent_map:
  "stored_consent
     (map (\<lambda>(cid, ctx).
             (cid, ctx\<lparr>ctx_consents := map_option (map (\<lambda>(p, c). (p, f c))) (ctx_consents ctx)\<rparr>))
        prefs) contextId purpose =
   map_option f (stored_consent prefs contextId purpose)"
proof (cases "map_of prefs contextId")
  case None
  then show ?thesis
    by (simp add: stored_consent_def map_of_map_value)
next
  case (Some ctx)
  then show ?thesis
    by (cases "ctx_consents ctx") (simp_all add: stored_consent_def map_of_map_value)
qed

lemma stored_consent_in:
  "stored_consent prefs contextId purpose = Some c \<Longrightarrow>
     \<exists>ctx. (contextId, ctx) \<in> set prefs \<and> (purpose, c) \<in> set (context_consents ctx)"
proof -
  assume "stored_consent prefs contextId purpose = Some c"
  then obtain ctx cs where "map_of prefs contextId = Some ctx" "ctx_consents ctx = Some cs"
    "map_of cs purpose = Some c"
    by (auto simp: stored_consent_def split: option.splits)
  then have "(contextId, ctx) \<in> set prefs \<and> (purpose, c) \<in> set (context_consents ctx)"
    by (simp add: context_consents_def map_of_SomeD)
  then show ?thesis ..
qed

lemma in_all_consents:
  "(contextId, ctx) \<in> set prefs \<Longrightarrow> (purpose, c) \<in> set (context_consents ctx) \<Longrightarrow>
     (purpose, c) \<in> set (all_consents prefs)"
  by (force simp: all_consents_def)

lemma in_getConsents:
  assumes "(contextId, ctx) \<in> set prefs" and "(purpose, c) \<in> set (context_consents ctx)"
  shows "assign (ctx_info ctx)
           [(''status'', property c ''status''),
            (''datatype'', js_or (property c ''datatype'') (JStr [])),
            (''description'', js_or (property c ''description'') (JStr [])),
            (''expiry_date'', js_or (property c ''expiry_date'') (JStr [])),
            (''identifier'', uuid cfg),
            (''purpose'', JStr purpose)] \<in> set (getConsents cfg storage prefs)"
proof -
  from assms(1) have "prefs \<noteq> []" by auto
  then show ?thesis
    using assms by (force simp: getConsents_def Let_def)
qed

lemma isExpired_timestamp:
  "property c ''status'' = JStr ''given'' \<Longrightarrow> property c ''expiry_date'' = JNum t \<Longrightarrow>
     t \<noteq> 0 \<Longrightarrow> - 8640000000000000 \<le> t \<Longrightarrow> t \<le> 8640000000000000 \<Longrightarrow> t < now \<Longrightarrow>
     isExpired cfg now c"
  by (simp add: isExpired_def instant_def GIVEN_def)

lemma updateExpiredConsents_store:
  "stored_consent (fst (updateExpiredConsents cfg now prefs)) contextId purpose =
     map_option (expireConsent cfg now) (stored_consent prefs contextId purpose)"
  by (simp add: updateExpiredConsents_def Let_def stored_consent_map)

lemma updateExpiredConsents_sync:
  "snd (updateExpiredConsents cfg now prefs) =
     (if list_ex (\<lambda>(p, c). isExpired cfg now c) (all_consents prefs)
      then Some (saveConsents cfg (Some Noop) (Some Noop) (fst (updateExpiredConsents cfg now prefs)))
      else None)"
  by (simp add: updateExpiredConsents_def Let_def)

lemma configure_parts:
  "cm_preferences (configure cfg now storage) =
     fst (updateExpiredConsents cfg now (initial_preferences cfg storage))"
  "reconciler_sync (configure cfg now storage) =
     snd (updateExpiredConsents cfg now (initial_preferences cfg storage))"
  "expired_calls (configure cfg now storage) =
     [(expiredConsentsCallback cfg,
       getExpiredConsents cfg now storage (cm_preferences (configure cfg now storage)))]"
  by (simp_all add: configure_def Let_def split_def)


section \<open>The sync engine sends one partition\<close>

text \<open>
  C1, as the code has it. A call of \<^verbatim>\<open>saveConsents\<close> hands to the collector one record
  per consent, under the consent table: when some consent of some context has a truthy
  \<^verbatim>\<open>_updated\<close>, the records of exactly the consents with a truthy \<^verbatim>\<open>_updated\<close>, in the
  order the loops visit them, and no other; when none has, the records of all consents.
  The two partitions are never sent together. The source tests the flag by its
  truthiness; for a flag that is a boolean or is not there, truthy means equal to
  \<^verbatim>\<open>true\<close>.
\<close>

theorem saveConsents_dispatches_one_partition:
  "dispatched (saveConsents cfg success error prefs) =
     map (\<lambda>(k, c). (consentTable cfg, getNormalizedConsent cfg k c))
       (if list_ex (\<lambda>(k, c). updated_flag c) (all_consents prefs)
        then filter (\<lambda>(k, c). updated_flag c) (all_consents prefs)
        else all_consents prefs) \<and>
   updated_flag c = (case property c ''_updated'' of
                       JBool b \<Rightarrow> b
                     | JUndefined \<Rightarrow> False
                     | v \<Rightarrow> truthy v)"
proof
  show "dispatched (saveConsents cfg success error prefs) =
     map (\<lambda>(k, c). (consentTable cfg, getNormalizedConsent cfg k c))
       (if list_ex (\<lambda>(k, c). updated_flag c) (all_consents prefs)
        then filter (\<lambda>(k, c). updated_flag c) (all_consents prefs)
        else all_consents prefs)"
    by (rule dispatched_saveConsents)
  show "updated_flag c = (case property c ''_updated'' of
                            JBool b \<Rightarrow> b
                          | JUndefined \<Rightarrow> False
                          | v \<Rightarrow> truthy v)"
    by (simp add: updated_flag_def split: jsval.splits)
qed

theorem saveConsents_dispatches_one_partition_witness:
  "dispatched (saveConsents fixture_config None None fixture_store) =
     [(''td_cm_consent'',
       [(''description'', JUndefined), (''datatype'', JUndefined), (''status'', JStr ''refused''),
        (''expriry_date'', JNull), (''issuer'', JStr ''treasuredata''),
        (''identifier'', JStr ''visitor''), (''purpose'', JStr ''marketing''),
        (''context_id'', JStr ''ctx-default'')])]"
proof -
  have "map (\<lambda>(k, c). (consentTable fixture_config, getNormalizedConsent fixture_config k c))
       (if list_ex (\<lambda>(k, c). updated_flag c) (all_consents fixture_store)
        then filter (\<lambda>(k, c). updated_flag c) (all_consents fixture_store)
        else all_consents fixture_store) = 
     [(''td_cm_consent'',
       [(''description'', JUndefined), (''datatype'', JUndefined), (''status'', JStr ''refused''),
        (''expriry_date'', JNull), (''issuer'', JStr ''treasuredata''),
        (''identifier'', JStr ''visitor''), (''purpose'', JStr ''marketing''),
        (''context_id'', JStr ''ctx-default'')])]"
    by code_simp
  then show ?thesis
    using saveConsents_dispatches_one_partition [of fixture_config None None fixture_store,
            THEN conjunct1]
    by simp
qed

text \<open>
  C1 as stated fails: \<^verbatim>\<open>addConsents\<close> copies a property \<^verbatim>\<open>_updated\<close> of its input into
  the record it stores. After \<^verbatim>\<open>addConsents({a: {_updated: 1}, b: {}})\<close> on the empty
  store no consent has \<^verbatim>\<open>_updated === true\<close>, and \<^verbatim>\<open>saveConsents\<close> dispatches the
  record of \<^verbatim>\<open>a\<close> alone, not the records of both.
\<close>

theorem saveConsents_truthy_flag_counterexample:
  "map fst (all_consents
              (fst (addConsents fixture_config [(''a'', [(''_updated'', JNum 1)]), (''b'', [])] []))) =
     [''a'', ''b''] \<and>
   list_all (\<lambda>(k, c). property c ''_updated'' \<noteq> JBool True)
     (all_consents
        (fst (addConsents fixture_config [(''a'', [(''_updated'', JNum 1)]), (''b'', [])] []))) \<and>
   map (\<lambda>(table, r). property r ''purpose'')
     (dispatched
        (saveConsents fixture_config None None
           (fst (addConsents fixture_config [(''a'', [(''_updated'', JNum 1)]), (''b'', [])] [])))) =
     [JStr ''a'']"
  by code_simp

text \<open>
  C2, as the code has it. When a call of \<^verbatim>\<open>saveConsents\<close> found a consent with a truthy
  \<^verbatim>\<open>_updated\<close>, then once its \<^verbatim>\<open>finally\<close> handler has run, which is after the success
  or the error callback has returned, with either outcome, whatever the store was when
  the dispatches settled and whatever the callback did to it: the consents of the store
  are those the callback left with every truthy flag written to \<^verbatim>\<open>false\<close> (a consent
  whose flag was not truthy is as it was, so a flag that was never there stays
  undefined), no consent of any context has a truthy flag, and a \<^verbatim>\<open>saveConsents\<close>
  issued then without new updates dispatches the record of every consent. The callback
  itself, and any sync it starts, runs on the store as it was when the dispatches
  settled, before any flag is reset.
\<close>

theorem flags_cleared_once_finally_has_run:
  assumes "list_ex (\<lambda>(k, c). updated_flag c) (all_consents prefs)"
  shows "all_consents
           (snd (snd (settle_with cfg host (saveConsents cfg success error prefs) out store))) =
           map (\<lambda>(k, c). (k, resetConsent c))
             (all_consents
                (fst (host (notify cfg (saveConsents cfg success error prefs) out store) store))) \<and>
         list_all (\<lambda>(k, c). \<not> updated_flag c)
           (all_consents
              (snd (snd (settle_with cfg host (saveConsents cfg success error prefs) out store)))) \<and>
         dispatched
           (saveConsents cfg success' error'
              (snd (snd (settle_with cfg host (saveConsents cfg success error prefs) out store)))) =
           map (\<lambda>(k, c). (consentTable cfg, getNormalizedConsent cfg k c))
             (all_consents
                (snd (snd (settle_with cfg host (saveConsents cfg success error prefs) out store)))) \<and>
         (updated_flag c \<longrightarrow> property (resetConsent c) ''_updated'' = JBool False) \<and>
         (\<not> updated_flag c \<longrightarrow> resetConsent c = c) \<and>
         fst (snd (settle_with cfg host (saveConsents cfg success error prefs) out store)) =
           snd (host (notify cfg (saveConsents cfg success error prefs) out store) store)"
proof -
  let ?req = "saveConsents cfg success error prefs"
  let ?left = "fst (host (notify cfg ?req out store) store)"
  let ?after = "snd (snd (settle_with cfg host ?req out store))"
  have after: "?after = resetUpdatedStatus ?left"
    using assms by (simp add: settle_with_def Let_def split_def had_updates_saveConsents)
  have shape: "all_consents ?after = map (\<lambda>(k, c). (k, resetConsent c)) (all_consents ?left)"
    by (simp only: after all_consents_reset)
  have clear: "list_all (\<lambda>(k, c). \<not> updated_flag c) (all_consents ?after)"
    unfolding shape by (auto simp: list_all_iff resetConsent_clears)
  then have "\<not> list_ex (\<lambda>(k, c). updated_flag c) (all_consents ?after)"
    by (auto simp: list_all_iff list_ex_iff)
  then have retry: "dispatched (saveConsents cfg success' error' ?after) =
           map (\<lambda>(k, c). (consentTable cfg, getNormalizedConsent cfg k c)) (all_consents ?after)"
    by (simp add: dispatched_saveConsents)
  have set: "updated_flag c \<longrightarrow> property (resetConsent c) ''_updated'' = JBool False"
    by (simp add: resetConsent_def property_update)
  have unset: "\<not> updated_flag c \<longrightarrow> resetConsent c = c"
    by (simp add: resetConsent_def)
  have callback: "fst (snd (settle_with cfg host ?req out store)) =
                    snd (host (notify cfg ?req out store) store)"
    by (simp add: settle_with_def Let_def split_def)
  from shape clear retry set unset callback show ?thesis
    by (intro conjI)
qed

theorem flags_cleared_once_finally_has_run_witness:
  "list_ex (\<lambda>(k, c). updated_flag c) (all_consents fixture_store) \<and>
   list_all (\<lambda>(k, c). \<not> updated_flag c)
     (all_consents
        (snd (snd (settle_with fixture_config (retrying_host fixture_config)
                     (saveConsents fixture_config None None fixture_store)
                     (Rejected ''Timeout'') fixture_store)))) \<and>
   length (dispatched
             (saveConsents fixture_config None None
                (snd (snd (settle_with fixture_config (retrying_host fixture_config)
                             (saveConsents fixture_config None None fixture_store)
                             (Rejected ''Timeout'') fixture_store))))) = 2"
proof -
  have h: "list_ex (\<lambda>(k, c). updated_flag c) (all_consents fixture_store)"
    by code_simp
  have n: "length (all_consents
                     (fst (retrying_host fixture_config
                             (notify fixture_config
                                (saveConsents fixture_config None None fixture_store)
                                (Rejected ''Timeout'') fixture_store)
                             fixture_store))) = 2"
    by code_simp
  note t = flags_cleared_once_finally_has_run [OF h, of fixture_config
               "retrying_host fixture_config" None None "Rejected ''Timeout''" fixture_store
               None None]
  have l: "length (dispatched
             (saveConsents fixture_config None None
                (snd (snd (settle_with fixture_config (retrying_host fixture_config)
                             (saveConsents fixture_config None None fixture_store)
                             (Rejected ''Timeout'') fixture_store))))) = 2"
    by (simp only: t [THEN conjunct2, THEN conjunct2, THEN conjunct1] t [THEN conjunct1]
          length_map n)
  from h t [THEN conjunct2, THEN conjunct1] l show ?thesis
    by (intro conjI)
qed

text \<open>
  C2 as stated fails twice on the store with the consents \<^verbatim>\<open>analytics\<close>, which has no
  flag, and \<^verbatim>\<open>marketing\<close>, which is flagged, when the dispatch is rejected. The error
  callback runs before the \<^verbatim>\<open>finally\<close> handler, so the \<^verbatim>\<open>saveConsents\<close> it issues
  finds the flag and sends the record of \<^verbatim>\<open>marketing\<close> again, alone. And after the
  \<^verbatim>\<open>finally\<close> handler \<^verbatim>\<open>_updated\<close> of \<^verbatim>\<open>analytics\<close> is undefined, not \<^verbatim>\<open>false\<close>.
\<close>

theorem retry_from_error_callback_counterexample:
  "map fst (all_consents fixture_store) = [''analytics'', ''marketing''] \<and>
   fst (settle_with fixture_config (retrying_host fixture_config)
          (saveConsents fixture_config None None fixture_store)
          (Rejected ''Timeout'') fixture_store) =
     ErrorCalled (Handler 2) [(''success'', JBool False), (''message'', JStr ''Timeout'')] \<and>
   map (\<lambda>started. map (\<lambda>(table, r). property r ''purpose'') (dispatched started))
     (fst (snd (settle_with fixture_config (retrying_host fixture_config)
                  (saveConsents fixture_config None None fixture_store)
                  (Rejected ''Timeout'') fixture_store))) =
     [[JStr ''marketing'']] \<and>
   map_option (\<lambda>c. property c ''_updated'')
     (stored_consent
        (snd (snd (settle_with fixture_config (retrying_host fixture_config)
                     (saveConsents fixture_config None None fixture_store)
                     (Rejected ''Timeout'') fixture_store)))
        ''ctx-default'' ''analytics'') = Some JUndefined"
  by code_simp

text \<open>
  C10. Every record \<^verbatim>\<open>saveConsents\<close> dispatches and every record of the object handed
  to the success callback is the normalised form of a stored consent; it has a property
  \<^verbatim>\<open>expriry_date\<close>, which holds the expiry date of the consent or \<^verbatim>\<open>null\<close> when
  that is falsy, and it has no property \<^verbatim>\<open>expiry_date\<close>.
\<close>

theorem normalized_records_misspell_expiry:
  "list_all (\<lambda>(table, r). has r ''expriry_date'' \<and> \<not> has r ''expiry_date'' \<and>
                list_ex (\<lambda>(k, c). r = getNormalizedConsent cfg k c) (all_consents prefs))
     (dispatched (saveConsents cfg success error prefs)) \<and>
   fst (settle cfg req AllAccepted prefs) = SuccessCalled (on_success req) (normalizeConsents cfg prefs) \<and>
   list_all (\<lambda>(purpose, r). has r ''expriry_date'' \<and> \<not> has r ''expiry_date'' \<and>
                list_ex (\<lambda>(k, c). r = getNormalizedConsent cfg k c) (all_consents prefs))
     (normalizeConsents cfg prefs) \<and>
   property (getNormalizedConsent cfg k c) ''expriry_date'' = js_or (property c ''expiry_date'') JNull"
proof -
  have a: "list_all (\<lambda>(table, r). has r ''expriry_date'' \<and> \<not> has r ''expiry_date'' \<and>
                list_ex (\<lambda>(k, c). r = getNormalizedConsent cfg k c) (all_consents prefs))
     (dispatched (saveConsents cfg success error prefs))"
    by (auto simp: dispatched_saveConsents list_all_iff list_ex_iff normalized_keys)
  have b: "list_all (\<lambda>(purpose, r). has r ''expriry_date'' \<and> \<not> has r ''expiry_date'' \<and>
                list_ex (\<lambda>(k, c). r = getNormalizedConsent cfg k c) (all_consents prefs))
     (normalizeConsents cfg prefs)"
    using in_normalizeConsents [of _ _ cfg prefs]
    by (fastforce simp: list_all_iff list_ex_iff normalized_keys)
  have c: "fst (settle cfg req AllAccepted prefs) = SuccessCalled (on_success req) (normalizeConsents cfg prefs)"
    by (simp add: settle_def notify_def Let_def)
  have d: "property (getNormalizedConsent cfg k c) ''expriry_date'' = js_or (property c ''expiry_date'') JNull"
    by (simp add: getNormalizedConsent_def property_def)
  from a b c d show ?thesis by blast
qed

theorem normalized_records_misspell_expiry_witness:
  "dispatched (saveConsents fixture_config None None fixture_store) \<noteq> [] \<and>
   list_all (\<lambda>(table, r). has r ''expriry_date'' \<and> \<not> has r ''expiry_date'')
     (dispatched (saveConsents fixture_config None None fixture_store))"
proof -
  have n: "dispatched (saveConsents fixture_config None None fixture_store) \<noteq> []"
    by code_simp
  have "list_all (\<lambda>(table, r). has r ''expriry_date'' \<and> \<not> has r ''expiry_date'')
     (dispatched (saveConsents fixture_config None None fixture_store))"
    using normalized_records_misspell_expiry [of fixture_config fixture_store None None, THEN conjunct1]
    by (auto simp: list_all_iff)
  with n show ?thesis by (intro conjI)
qed


section \<open>The consent record store\<close>

text \<open>
  C8. A call of \<^verbatim>\<open>updateConsent\<close> whose context id is not a key of the preferences
  store, and a call whose consent argument is empty, returns without an exception and
  leaves the whole store as it was.
\<close>

theorem updateConsent_noop_leaves_store:
  assumes "map_of prefs contextId = None \<or> consent = []"
  shows "updateConsent cfg contextId consent prefs = Inr prefs"
  using assms by (auto simp: updateConsent_def split: option.splits list.splits)

theorem updateConsent_noop_leaves_store_witness:
  "updateConsent fixture_config ''ctx-unknown'' [(''marketing'', [(''status'', JStr ''refused'')])]
     fixture_store = Inr fixture_store \<and>
   updateConsent fixture_config ''ctx-default'' [] fixture_store = Inr fixture_store"
proof -
  have a: "map_of fixture_store ''ctx-unknown'' = None \<or>
           [(''marketing'', [(''status'', JStr ''refused'')])] = []"
    by (simp add: fixture_store_def)
  have b: "map_of fixture_store ''ctx-default'' = None \<or> ([] :: (string \<times> obj) list) = []"
    by simp
  from updateConsent_noop_leaves_store [OF a] updateConsent_noop_leaves_store [OF b]
  show ?thesis by (intro conjI)
qed

text \<open>
  C6. \<^verbatim>\<open>getConsentExpiryDate\<close> reads \<^verbatim>\<open>preferences[contextId].consents\<close> with no guard:
  for a context id that has no entry in the store the call throws a TypeError to the
  caller, on the empty store and on a store with other contexts. So does
  \<^verbatim>\<open>addConsents\<close> for an input that names a context id that has no entry.
\<close>

theorem getConsentExpiryDate_throws_without_context:
  "getConsentExpiryDate [] ''ctx-unknown'' ''analytics'' = Inl TypeError \<and>
   getConsentExpiryDate fixture_store ''ctx-unknown'' ''analytics'' = Inl TypeError \<and>
   addConsents fixture_config
     [(''analytics'', [(''status'', JStr ''given''), (''context_id'', JStr ''ctx-unknown'')])] [] =
     ([], Some TypeError)"
  by code_simp


text \<open>
  C7. \<^verbatim>\<open>updateContext\<close> takes \<^verbatim>\<open>consents\<close> out of the stored context only, not out of
  its argument: for an argument that has a property \<^verbatim>\<open>consents\<close> the merged context
  gets that value, and the two consents the context held are gone.
\<close>

theorem updateContext_overwrites_consents:
  "map_option context_consents (map_of fixture_store ''ctx-default'') =
     Some [(''analytics'', [(''status'', JStr ''given''), (''expiry_date'', JNum 4070908800000),
                            (''context_id'', JStr ''ctx-default'')]),
           (''marketing'', [(''status'', JStr ''refused''), (''expiry_date'', JStr []),
                            (''context_id'', JStr ''ctx-default''), (''_updated'', JBool True)])] \<and>
   map_option context_consents
     (map_of (updateContext ''ctx-default''
                \<lparr>ctx_info = [(''brand'', JStr ''other'')], ctx_consents = Some []\<rparr> fixture_store)
        ''ctx-default'') = Some []"
  by code_simp


text \<open>
  C5. The store keeps a consent under the purpose \<^verbatim>\<open>Marketing\<close> and \<^verbatim>\<open>updateConsent\<close>
  is called for the purpose \<^verbatim>\<open>marketing\<close>, which is equal to it under \<open>camelCase\<close>.
  With a valid status and a valid date the stored record stays as it was and a second
  entry is made under the key of the argument, without the fields of the stored record;
  with the status alone the call throws a TypeError.
\<close>

theorem updateConsent_misses_stored_key:
  "camelCase fixture_config ''Marketing'' = camelCase fixture_config ''marketing'' \<and>
   updateConsent fixture_config ''ctx-default''
     [(''marketing'', [(''status'', JStr ''refused''), (''expiry_date'', JStr ''2099-01-01'')])]
     fixture_store_capital =
     Inr [(''ctx-default'',
           fixture_context\<lparr>ctx_consents :=
             Some [(''Marketing'', [(''status'', JStr ''given''), (''expiry_date'', JNum 4070908800000),
                                   (''context_id'', JStr ''ctx-default'')]),
                   (''marketing'', [(''identifier'', JStr ''visitor''), (''status'', JStr ''refused''),
                                   (''expiry_date'', JNum 4070908800000),
                                   (''_updated'', JBool True)])]\<rparr>)] \<and>
   updateConsent fixture_config ''ctx-default'' [(''marketing'', [(''status'', JStr ''refused'')])]
     fixture_store_capital = Inl TypeError"
  by code_simp


text \<open>
  C3. \<^verbatim>\<open>addConsents\<close> with the status \<^verbatim>\<open>maybe\<close>, which is not valid: merged over the
  existing record of \<^verbatim>\<open>analytics\<close> the stored status is \<^verbatim>\<open>maybe\<close>; for the new
  purpose \<^verbatim>\<open>profiling\<close> it is \<^verbatim>\<open>notgiven\<close>.
\<close>

theorem addConsents_merge_stores_invalid_status:
  "\<not> isValidStatus (JStr ''maybe'') \<and>
   map_option (\<lambda>c. property c ''status'')
     (stored_consent
        (fst (addConsents fixture_config [(''analytics'', [(''status'', JStr ''maybe'')])] fixture_store))
        ''ctx-default'' ''analytics'') = Some (JStr ''maybe'') \<and>
   map_option (\<lambda>c. property c ''status'')
     (stored_consent
        (fst (addConsents fixture_config [(''profiling'', [(''status'', JStr ''maybe'')])] fixture_store))
        ''ctx-default'' ''profiling'') = Some (JStr ''notgiven'')"
  by code_simp




section \<open>The expiry reconciler at configure time\<close>

text \<open>
  What the reconciler does for a timestamp other than 0 that a \<^verbatim>\<open>Date\<close> can hold: a
  given consent of the store \<^verbatim>\<open>configure\<close> starts from that expired at it is stored
  afterwards as expired and flagged, the reconciler has called \<^verbatim>\<open>saveConsents\<close> with
  \<^verbatim>\<open>_.noop\<close> for both callbacks, and the expired consents have an entry for its
  purpose. The call of \<^verbatim>\<open>expiredConsentsCallback\<close>, exactly one, is in
  \<open>configure_parts\<close> for every store.
\<close>

lemma configure_flips_past_timestamps:
  assumes c: "stored_consent (initial_preferences cfg storage) contextId purpose = Some c"
      and given: "property c ''status'' = JStr ''given''"
      and date: "property c ''expiry_date'' = JNum t"
      and set: "t \<noteq> 0"
      and range: "- 8640000000000000 \<le> t" "t \<le> 8640000000000000"
      and past: "t < now"
  shows "\<exists>c'. stored_consent (cm_preferences (configure cfg now storage)) contextId purpose = Some c' \<and>
           property c' ''status'' = JStr ''expired'' \<and>
           property c' ''_updated'' = JBool True \<and>
           reconciler_sync (configure cfg now storage) =
             Some (saveConsents cfg (Some Noop) (Some Noop)
                     (cm_preferences (configure cfg now storage))) \<and>
           on_success (saveConsents cfg (Some Noop) (Some Noop)
                         (cm_preferences (configure cfg now storage))) = Noop \<and>
           on_error (saveConsents cfg (Some Noop) (Some Noop)
                       (cm_preferences (configure cfg now storage))) = Noop \<and>
           expired_calls (configure cfg now storage) =
             [(expiredConsentsCallback cfg,
               getExpiredConsents cfg now storage (cm_preferences (configure cfg now storage)))] \<and>
           list_ex (\<lambda>e. property e ''purpose'' = JStr purpose \<and>
                         property e ''status'' = JStr ''expired'')
             (getExpiredConsents cfg now storage (cm_preferences (configure cfg now storage)))"
proof -
  let ?prefs0 = "initial_preferences cfg storage"
  let ?prefs1 = "cm_preferences (configure cfg now storage)"
  let ?c' = "expireConsent cfg now c"
  have ex: "isExpired cfg now c"
    using given date set range past by (rule isExpired_timestamp)
  have st: "stored_consent ?prefs1 contextId purpose = Some ?c'"
    by (simp add: configure_parts updateExpiredConsents_store c)
  have status: "property ?c' ''status'' = JStr ''expired''"
    using ex by (simp add: expireConsent_def property_update EXPIRED_def)
  have flag: "property ?c' ''_updated'' = JBool True"
    using ex by (simp add: expireConsent_def property_update)
  from stored_consent_in [OF c] obtain ctx0 where
    "(contextId, ctx0) \<in> set ?prefs0" "(purpose, c) \<in> set (context_consents ctx0)"
    by blast
  then have "(purpose, c) \<in> set (all_consents ?prefs0)"
    by (rule in_all_consents)
  with ex have some: "list_ex (\<lambda>(p, c). isExpired cfg now c) (all_consents ?prefs0)"
    by (auto simp: list_ex_iff)
  have sync: "reconciler_sync (configure cfg now storage) =
      Some (saveConsents cfg (Some Noop) (Some Noop) ?prefs1)"
    using some by (simp add: configure_parts updateExpiredConsents_sync)
  have cbs: "on_success (saveConsents cfg (Some Noop) (Some Noop) ?prefs1) = Noop"
            "on_error (saveConsents cfg (Some Noop) (Some Noop) ?prefs1) = Noop"
    by (simp_all add: saveConsents_def Let_def)
  from stored_consent_in [OF st] obtain ctx1 where
    in1: "(contextId, ctx1) \<in> set ?prefs1" "(purpose, ?c') \<in> set (context_consents ctx1)"
    by blast
  let ?e = "assign (ctx_info ctx1)
           [(''status'', property ?c' ''status''),
            (''datatype'', js_or (property ?c' ''datatype'') (JStr [])),
            (''description'', js_or (property ?c' ''description'') (JStr [])),
            (''expiry_date'', js_or (property ?c' ''expiry_date'') (JStr [])),
            (''identifier'', uuid cfg),
            (''purpose'', JStr purpose)]"
  have e_in: "?e \<in> set (getConsents cfg storage ?prefs1)"
    using in1 by (rule in_getConsents)
  have e_purpose: "property ?e ''purpose'' = JStr purpose"
    by (simp add: assign_def property_update)
  have e_status: "property ?e ''status'' = JStr ''expired''"
    by (simp add: assign_def property_update status)
  have "?e \<in> set (getExpiredConsents cfg now storage ?prefs1)"
    using e_in e_status by (simp add: getExpiredConsents_def EXPIRED_def)
  with e_purpose e_status
  have shown: "list_ex (\<lambda>e. property e ''purpose'' = JStr purpose \<and>
                            property e ''status'' = JStr ''expired'')
                 (getExpiredConsents cfg now storage ?prefs1)"
    unfolding list_ex_iff by blast
  from st status flag sync cbs configure_parts(3) [of cfg now storage] shown
  show ?thesis by blast
qed

text \<open>
  C9. The storage holds two given consents of one context: \<^verbatim>\<open>newsletter\<close>, which
  expired in 2001, and \<^verbatim>\<open>archive\<close> with the expiry date 0, the first millisecond of
  1970. \<^verbatim>\<open>configure\<close> in 2001 or later sets \<^verbatim>\<open>newsletter\<close> to expired and flags it;
  \<^verbatim>\<open>archive\<close>, which expired earlier, keeps the status \<^verbatim>\<open>given\<close>, gets no flag and is
  not among the expired consents the callback is called with, because \<^verbatim>\<open>_isExpired\<close>
  tests the truthiness of \<^verbatim>\<open>expiry_date\<close> before it compares the dates.
\<close>

theorem configure_skips_epoch_zero:
  "map_option (\<lambda>c. (property c ''status'', property c ''expiry_date''))
     (stored_consent (initial_preferences fixture_config fixture_storage) ''ctx-1'' ''archive'') =
     Some (JStr ''given'', JNum 0) \<and>
   (0 :: int) < 1000000000000 \<and>
   map_option (\<lambda>c. (property c ''status'', property c ''_updated''))
     (stored_consent (cm_preferences (configure fixture_config 1000000000000 fixture_storage))
        ''ctx-1'' ''newsletter'') = Some (JStr ''expired'', JBool True) \<and>
   map_option (\<lambda>c. (property c ''status'', property c ''_updated''))
     (stored_consent (cm_preferences (configure fixture_config 1000000000000 fixture_storage))
        ''ctx-1'' ''archive'') = Some (JStr ''given'', JUndefined) \<and>
   map (\<lambda>(f, expired). (f, map (\<lambda>e. property e ''purpose'') expired))
     (expired_calls (configure fixture_config 1000000000000 fixture_storage)) =
     [(Handler 3, [JStr ''newsletter''])]"
  by code_simp

end
